theory Spec2Isabelle
  imports Main
begin

section \<open>Python objects as seen by the sniffer\<close>

text \<open>
  \<open>sniff_options\<close> never looks inside an object: it asks a fixed list of questions
  (\<open>getattr\<close>, \<open>isinstance\<close>, the \<open>inspect\<close> predicates) and follows the
  \<open>__wrapped__\<close> and \<open>__func__\<close> attributes. An object is therefore the record of the
  answers; attribute values that are objects are addresses into a store, so that a
  \<open>__wrapped__\<close> chain may share objects or run in a circle, as Python allows.
\<close>

text \<open>
  Identity of a code object. The three named ones are the \<open>helper\<close> closures that
  \<open>contextlib.contextmanager\<close>, \<open>contextlib2.contextmanager\<close> and
  \<open>contextlib.asynccontextmanager\<close> return; every other code object is \<open>other_code n\<close>.
\<close>

datatype code_id =
    contextmanager_helper
  | contextmanager2_helper
  | asynccontextmanager_helper
  | other_code nat

type_synonym addr = nat

record pyobj =
  isabstractmethod :: bool          \<comment> \<open>\<open>getattr(obj, "__isabstractmethod__", False)\<close> is true\<close>
  is_classmethod :: bool            \<comment> \<open>\<open>isinstance(obj, classmethod)\<close>\<close>
  is_staticmethod :: bool           \<comment> \<open>\<open>isinstance(obj, staticmethod)\<close>\<close>
  iscoroutinefunction :: bool       \<comment> \<open>\<open>inspect.iscoroutinefunction(obj)\<close>\<close>
  isgeneratorfunction :: bool       \<comment> \<open>\<open>inspect.isgeneratorfunction(obj)\<close>\<close>
  isasyncgenfunction :: bool        \<comment> \<open>\<open>isasyncgenfunction(obj)\<close>\<close>
  code_attr :: "code_id option"     \<comment> \<open>\<open>getattr(obj, "__code__", None)\<close>\<close>
  returns_contextmanager :: bool    \<comment> \<open>\<open>getattr(obj, "__returns_contextmanager__", False)\<close>\<close>
  returns_acontextmanager :: bool   \<comment> \<open>\<open>getattr(obj, "__returns_acontextmanager__", False)\<close>\<close>
  wrapped_attr :: "addr option"     \<comment> \<open>\<open>obj.__wrapped__\<close>, when \<open>hasattr(obj, "__wrapped__")\<close>\<close>
  func_attr :: "addr option"        \<comment> \<open>\<open>obj.__func__\<close>, when \<open>hasattr(obj, "__func__")\<close>\<close>

type_synonym store = "addr \<Rightarrow> pyobj"

text \<open>An object that answers no to everything, such as \<open>None\<close> or a plain \<open>int\<close>.\<close>

definition plain_object :: pyobj where
  "plain_object = \<lparr> isabstractmethod = False, is_classmethod = False, is_staticmethod = False,
     iscoroutinefunction = False, isgeneratorfunction = False, isasyncgenfunction = False,
     code_attr = None, returns_contextmanager = False, returns_acontextmanager = False,
     wrapped_attr = None, func_attr = None \<rparr>"

section \<open>The sniffer\<close>

definition CM_CODES :: "code_id set" where
  "CM_CODES = {contextmanager_helper, contextmanager2_helper}"

definition ACM_CODES :: "code_id set" where
  "ACM_CODES = {asynccontextmanager_helper}"

definition EXCLUSIVE_OPTIONS :: "string set" where
  "EXCLUSIVE_OPTIONS = {''async'', ''for'', ''async-for'', ''with'', ''async-with''}"

text \<open>\<open>getattr(obj, "__code__", None) in codes\<close>: \<open>None\<close> is in neither set.\<close>

definition code_in :: "pyobj \<Rightarrow> code_id set \<Rightarrow> bool" where
  "code_in obj codes = (case code_attr obj of None \<Rightarrow> False | Some c \<Rightarrow> c \<in> codes)"

text \<open>Lines 263 to 268: the three checks made on every layer.\<close>

definition sniff_independent :: "pyobj \<Rightarrow> string set \<Rightarrow> string set" where
  "sniff_independent obj options0 =
    (let options1 = (if isabstractmethod obj then insert ''abstractmethod'' options0 else options0);
         options2 = (if is_classmethod obj then insert ''classmethod'' options1 else options1);
         options3 = (if is_staticmethod obj then insert ''staticmethod'' options2 else options2)
     in options3)"

text \<open>Lines 273 to 289: the body of \<open>if not (options & EXCLUSIVE_OPTIONS)\<close>.\<close>

definition sniff_exclusive :: "pyobj \<Rightarrow> string set \<Rightarrow> string set" where
  "sniff_exclusive obj options0 =
    (let options1 = (if iscoroutinefunction obj then insert ''async'' options0
                     else if isgeneratorfunction obj then insert ''for'' options0
                     else options0);
         options2 = (if isasyncgenfunction obj then insert ''async-for'' options1 else options1);
         options3 = (if code_in obj CM_CODES then insert ''with'' options2 else options2);
         options4 = (if returns_contextmanager obj then insert ''with'' options3 else options3);
         options5 = (if code_in obj ACM_CODES then insert ''async-with'' options4 else options4);
         options6 = (if returns_acontextmanager obj then insert ''async-with'' options5 else options5)
     in options6)"

text \<open>Lines 263 to 289: everything the loop body does to \<open>options\<close> for one object.\<close>

definition sniff_layer :: "pyobj \<Rightarrow> string set \<Rightarrow> string set" where
  "sniff_layer obj options0 =
    (let options1 = sniff_independent obj options0
     in if options1 \<inter> EXCLUSIVE_OPTIONS = {} then sniff_exclusive obj options1 else options1)"

text \<open>Lines 290 to 295: \<open>__wrapped__\<close> is preferred, then \<open>__func__\<close>, else the loop breaks.\<close>

definition next_link :: "pyobj \<Rightarrow> addr option" where
  "next_link obj =
    (case wrapped_attr obj of
       Some w \<Rightarrow> Some w
     | None \<Rightarrow> (case func_attr obj of Some f \<Rightarrow> Some f | None \<Rightarrow> None))"

text \<open>
  The \<open>while True\<close> loop. Nothing in the source bounds it, and on a circular chain it
  runs forever, so it is a partial function: \<open>None\<close> is "does not return". The argument
  \<open>visited\<close> is not in the source: it counts the objects the loop has looked at and is
  returned beside the options; it never influences them.
\<close>

partial_function (option) sniff_loop ::
  "store \<Rightarrow> string set \<Rightarrow> nat \<Rightarrow> addr \<Rightarrow> (string set \<times> nat) option" where
  "sniff_loop st options visited obj =
    (case next_link (st obj) of
       Some nxt \<Rightarrow> sniff_loop st (sniff_layer (st obj) options) (Suc visited) nxt
     | None \<Rightarrow> Some (sniff_layer (st obj) options, Suc visited))"

definition sniff_options :: "store \<Rightarrow> addr \<Rightarrow> string set option" where
  "sniff_options st obj = map_option fst (sniff_loop st {} 0 obj)"

definition sniff_visits :: "store \<Rightarrow> addr \<Rightarrow> nat option" where
  "sniff_visits st obj = map_option snd (sniff_loop st {} 0 obj)"


section \<open>What the sniffer is expected to compute\<close>

text \<open>
  The tags one layer yields when looked at alone, written from the description of the
  sniffer rather than from its statements: the three independent tags, and the tags of
  the exclusive group (coroutine before generator; the others tested independently).
\<close>

definition INDEPENDENT_OPTIONS :: "string set" where
  "INDEPENDENT_OPTIONS = {''abstractmethod'', ''staticmethod'', ''classmethod''}"

definition detected_independent :: "pyobj \<Rightarrow> string set" where
  "detected_independent obj =
     (if isabstractmethod obj then {''abstractmethod''} else {})
   \<union> (if is_classmethod obj then {''classmethod''} else {})
   \<union> (if is_staticmethod obj then {''staticmethod''} else {})"

definition detected_exclusive :: "pyobj \<Rightarrow> string set" where
  "detected_exclusive obj =
     (if iscoroutinefunction obj then {''async''}
      else if isgeneratorfunction obj then {''for''} else {})
   \<union> (if isasyncgenfunction obj then {''async-for''} else {})
   \<union> (if code_in obj CM_CODES \<or> returns_contextmanager obj then {''with''} else {})
   \<union> (if code_in obj ACM_CODES \<or> returns_acontextmanager obj then {''async-with''} else {})"

text \<open>
  \<open>is_chain st obj xs\<close>: the objects reached from \<open>obj\<close> by following \<open>next_link\<close> are
  exactly \<open>xs\<close>, in order, and the last one has no further link. A chain that ends is
  finite and has no cycle.
\<close>

fun is_chain :: "store \<Rightarrow> addr \<Rightarrow> addr list \<Rightarrow> bool" where
  "is_chain st obj [] = False"
| "is_chain st obj (x # xs) =
    (x = obj \<and> (case next_link (st obj) of None \<Rightarrow> xs = [] | Some nxt \<Rightarrow> is_chain st nxt xs))"

text \<open>The exclusive tags of the first layer of \<open>xs\<close> that yields any.\<close>

definition first_exclusive :: "store \<Rightarrow> addr list \<Rightarrow> string set" where
  "first_exclusive st xs =
    (case find (\<lambda>x. detected_exclusive (st x) \<noteq> {}) xs of
       None \<Rightarrow> {}
     | Some x \<Rightarrow> detected_exclusive (st x))"

text \<open>
  An \<open>async def\<close> function on which \<open>__returns_contextmanager__ = True\<close> has been set;
  it wraps nothing.
\<close>

definition async_cm_store :: store where
  "async_cm_store = (\<lambda>_. plain_object)
     (0 := plain_object\<lparr> iscoroutinefunction := True, returns_contextmanager := True \<rparr>)"

text \<open>
  A static method (object 10) whose \<open>__func__\<close> is an abstract async-generator wrapper
  (object 20) whose \<open>__wrapped__\<close> is a coroutine function (object 30).
\<close>

definition layered_store :: store where
  "layered_store = (\<lambda>_. plain_object)
     (10 := plain_object\<lparr> is_staticmethod := True, func_attr := Some 20 \<rparr>,
      20 := plain_object\<lparr> isabstractmethod := True, isasyncgenfunction := True,
                           wrapped_attr := Some 30 \<rparr>,
      30 := plain_object\<lparr> iscoroutinefunction := True \<rparr>)"

section \<open>Option dictionaries and strings\<close>

text \<open>
  The value of an option. \<open>directives.flag\<close> yields \<open>None\<close>, \<open>directives.unchanged\<close>
  yields the text after the option name (the empty string when there is none), and
  \<open>update_with_sniffed_options\<close> stores \<open>None\<close>.
\<close>

datatype pyval = PyNone | PyStr string

type_synonym option_dict = "string \<rightharpoonup> pyval"

text \<open>\<open>None.strip()\<close> raises \<open>AttributeError\<close>; nothing else in the modelled code raises.\<close>

datatype error = AttributeError

text \<open>
  Strings are lists of 8-bit characters, read as the code points below 256. These are
  the ones among them for which \<open>str.isspace\<close> holds; \<open>str.strip()\<close> removes them from
  both ends.
\<close>

definition whitespace :: "char list" where
  "whitespace = [CHR 0x09, CHR 0x0A, CHR 0x0B, CHR 0x0C, CHR 0x0D,
                 CHR 0x1C, CHR 0x1D, CHR 0x1E, CHR 0x1F, CHR 0x20, CHR 0x85, CHR 0xA0]"

definition isspace :: "char \<Rightarrow> bool" where
  "isspace c = (c \<in> set whitespace)"

definition lstrip :: "string \<Rightarrow> string" where
  "lstrip s = dropWhile isspace s"

definition rstrip :: "string \<Rightarrow> string" where
  "rstrip s = rev (dropWhile isspace (rev s))"

definition strip :: "string \<Rightarrow> string" where
  "strip s = lstrip (rstrip s)"

section \<open>The signature renderer\<close>

text \<open>
  Lines 174 to 179, the loop over \<open>[("for", "for"), ("async-for", "async for")]\<close>.
  \<open>self.options.get(for_type, "")\<close> is only reached when the key is present, so it
  returns the stored value.
\<close>

fun for_clauses :: "(string \<times> string) list \<Rightarrow> option_dict \<Rightarrow> string \<Rightarrow> error + string" where
  "for_clauses [] options ret = Inr ret"
| "for_clauses ((for_type, render) # rest) options ret =
    (case options for_type of
       None \<Rightarrow> for_clauses rest options ret
     | Some PyNone \<Rightarrow> Inl AttributeError
     | Some (PyStr name) \<Rightarrow>
         for_clauses rest options
           (ret @ render @ '' '' @ (if strip name = [] then ''...'' else name) @ '' in ''))"

text \<open>\<open>ExtendedCallableMixin._get_signature_prefix\<close>, lines 144 to 182.\<close>

definition u_get_signature_prefix :: "option_dict \<Rightarrow> string \<Rightarrow> error + string" where
  "u_get_signature_prefix options objtype =
    (let ret0 = [];
         ret1 = (if ''abstractmethod'' \<in> dom options then ret0 @ ''abstractmethod '' else ret0);
         ret2 = (if ''staticmethod'' \<in> dom options \<or> objtype = ''staticmethod''
                 then ret1 @ ''staticmethod '' else ret1);
         ret3 = (if ''classmethod'' \<in> dom options \<or> objtype = ''classmethod''
                 then ret2 @ ''classmethod '' else ret2);
         ret4 = (if ''with'' \<in> dom options then ret3 @ ''with '' else ret3);
         ret5 = (if ''async-with'' \<in> dom options then ret4 @ ''async with '' else ret4)
     in case for_clauses [(''for'', ''for''), (''async-for'', ''async for'')] options ret5 of
          Inl e \<Rightarrow> Inl e
        | Inr ret6 \<Rightarrow> Inr (if ''async'' \<in> dom options then ret6 @ ''await '' else ret6))"

text \<open>
  The children of the signature node: the two node classes the mixin creates, and
  whatever the host's \<open>handle_signature\<close> has put there before.
\<close>

datatype sig_node = desc_addname string | desc_annotation string | host_node string

text \<open>
  Lines 205 to 210, the loop over \<open>["with", "async-with"]\<close>:
  \<open>self.options.get(optname, "")\<close> is the empty string for a missing key.
\<close>

fun suffix_annotations ::
  "string list \<Rightarrow> option_dict \<Rightarrow> sig_node list \<Rightarrow> error + sig_node list" where
  "suffix_annotations [] options signode = Inr signode"
| "suffix_annotations (optname # rest) options signode =
    (case options optname of
       None \<Rightarrow> suffix_annotations rest options signode
     | Some PyNone \<Rightarrow> Inl AttributeError
     | Some (PyStr v) \<Rightarrow>
         (if strip v \<noteq> []
          then suffix_annotations rest options
                 (signode @ [desc_annotation (CHR 0xA0 # ''as '' @ v)])
          else suffix_annotations rest options signode))"

text \<open>
  \<open>ExtendedCallableMixin.handle_signature\<close>, lines 190 to 212, after the call of the
  host's method: \<open>signode0\<close> is the signature node as the host has filled it. The model
  returns the node (the source returns the host's result and mutates the node).
\<close>

definition handle_signature ::
  "option_dict \<Rightarrow> string \<Rightarrow> sig_node list \<Rightarrow> error + sig_node list" where
  "handle_signature options objtype signode0 =
    (let signode1 = (if ''decorator'' \<in> dom options
                        \<or> objtype \<in> set [''decorator'', ''decoratormethod'']
                     then desc_addname ''@'' # signode0 else signode0)
     in case u_get_signature_prefix options objtype of
          Inl e \<Rightarrow> Inl e
        | Inr prefix \<Rightarrow>
            (let signode2 = (if prefix \<noteq> [] then desc_annotation prefix # signode1
                             else signode1)
             in suffix_annotations [''with'', ''async-with''] options signode2))"

section \<open>What the renderer is expected to produce\<close>

text \<open>
  The prefix as the description of the renderer gives it: the tags in a fixed order,
  each present tag contributing its words. A static or class method directive counts
  as the tag being present.
\<close>

definition prefix_order :: "string list" where
  "prefix_order = [''abstractmethod'', ''staticmethod'', ''classmethod'', ''with'',
                   ''async-with'', ''for'', ''async-for'', ''async'']"

definition tag_present :: "option_dict \<Rightarrow> string \<Rightarrow> string \<Rightarrow> bool" where
  "tag_present options objtype tag =
    (tag \<in> dom options \<or> (tag \<in> set [''staticmethod'', ''classmethod''] \<and> objtype = tag))"

definition bound_name :: "option_dict \<Rightarrow> string \<Rightarrow> string" where
  "bound_name options tag =
    (case options tag of
       Some (PyStr name) \<Rightarrow> (if strip name = [] then ''...'' else name)
     | _ \<Rightarrow> ''...'')"

definition tag_words :: "option_dict \<Rightarrow> string \<Rightarrow> string" where
  "tag_words options tag =
    (if tag = ''abstractmethod'' then ''abstractmethod ''
     else if tag = ''staticmethod'' then ''staticmethod ''
     else if tag = ''classmethod'' then ''classmethod ''
     else if tag = ''with'' then ''with ''
     else if tag = ''async-with'' then ''async with ''
     else if tag = ''for'' then ''for '' @ bound_name options ''for'' @ '' in ''
     else if tag = ''async-for'' then ''async for '' @ bound_name options ''async-for'' @ '' in ''
     else if tag = ''async'' then ''await ''
     else [])"

definition rendered_prefix :: "option_dict \<Rightarrow> string \<Rightarrow> string" where
  "rendered_prefix options objtype =
    concat (map (\<lambda>tag. if tag_present options objtype tag then tag_words options tag else [])
                prefix_order)"

text \<open>
  The pieces of a rendered signature: the words of the present tags among \<open>tags\<close>, in
  the order of \<open>tags\<close>; the decorator marker; and the annotation \<open>as name\<close> (after a
  no-break space) that a tag with a bound name that is not blank puts after the
  signature.
\<close>

definition words_of :: "option_dict \<Rightarrow> string \<Rightarrow> string list \<Rightarrow> string" where
  "words_of options objtype tags =
    concat (map (\<lambda>tag. if tag_present options objtype tag then tag_words options tag else [])
                tags)"

definition decorator_marker :: "option_dict \<Rightarrow> string \<Rightarrow> sig_node list" where
  "decorator_marker options objtype =
    (if ''decorator'' \<in> dom options \<or> objtype \<in> set [''decorator'', ''decoratormethod'']
     then [desc_addname ''@''] else [])"

definition as_annotation :: "option_dict \<Rightarrow> string \<Rightarrow> sig_node list" where
  "as_annotation options tag =
    (case options tag of
       Some (PyStr name) \<Rightarrow>
         (if strip name = [] then [] else [desc_annotation (CHR 0xA0 # ''as '' @ name)])
     | _ \<Rightarrow> [])"

text \<open>Whether the text of some node of a rendered signature contains \<open>...\<close>.\<close>

definition node_text :: "sig_node \<Rightarrow> string" where
  "node_text n = (case n of desc_addname s \<Rightarrow> s | desc_annotation s \<Rightarrow> s | host_node s \<Rightarrow> s)"

fun contains :: "string \<Rightarrow> string \<Rightarrow> bool" where
  "contains pat [] = (pat = [])"
| "contains pat (c # cs) = (take (length pat) (c # cs) = pat \<or> contains pat cs)"

fun mentions_ellipsis :: "sig_node list \<Rightarrow> bool" where
  "mentions_ellipsis [] = False"
| "mentions_ellipsis (n # ns) = (contains ''...'' (node_text n) \<or> mentions_ellipsis ns)"

text \<open>The options of \<open>.. method:: foo\<close> with \<open>:abstractmethod:\<close>, \<open>:classmethod:\<close>, \<open>:async:\<close>.\<close>

definition abstract_classmethod_async :: option_dict where
  "abstract_classmethod_async =
     [''abstractmethod'' \<mapsto> PyNone, ''classmethod'' \<mapsto> PyNone, ''async'' \<mapsto> PyNone]"

text \<open>The options of a directive with \<open>:abstractmethod:\<close> alone.\<close>

definition abstract_only :: option_dict where
  "abstract_only = [''abstractmethod'' \<mapsto> PyNone]"

section \<open>Merging sniffed options into the explicit ones\<close>

text \<open>\<open>dict.setdefault(key, default)\<close>, as a function of the dictionary.\<close>

definition setdefault :: "option_dict \<Rightarrow> string \<Rightarrow> pyval \<Rightarrow> option_dict" where
  "setdefault d key dflt = (if key \<in> dom d then d else d(key \<mapsto> dflt))"

text \<open>Lines 304 to 312: \<open>for attr in sniffed: option_dict.setdefault(attr, None)\<close>.\<close>

fun setdefault_each :: "string list \<Rightarrow> option_dict \<Rightarrow> option_dict" where
  "setdefault_each [] option_dict = option_dict"
| "setdefault_each (attr # rest) option_dict =
     setdefault_each rest (setdefault option_dict attr PyNone)"

text \<open>
  \<open>update_with_sniffed_options\<close>, lines 300 to 312. The source mutates \<open>option_dict\<close>
  and returns nothing; the model returns the dictionary, and \<open>None\<close> when the sniffer
  does not return. Python does not fix the order in which a set is iterated, so the
  order is the parameter \<open>iter\<close>, of which the theorems assume only that \<open>iter S\<close>
  lists the members of \<open>S\<close>.
\<close>

definition update_with_sniffed_options ::
  "(string set \<Rightarrow> string list) \<Rightarrow> store \<Rightarrow> addr \<Rightarrow> option_dict \<Rightarrow> option_dict option" where
  "update_with_sniffed_options iter st obj option_dict =
    (if ''no-auto-options'' \<in> dom option_dict then Some option_dict
     else case sniff_options st obj of
            None \<Rightarrow> None
          | Some sniffed \<Rightarrow> Some (setdefault_each (iter sniffed) option_dict))"

text \<open>One iteration order: the tags the sniffer can report, in a fixed order.\<close>

definition sniffable_tags :: "string list" where
  "sniffable_tags = [''abstractmethod'', ''classmethod'', ''staticmethod'', ''async'', ''for'',
                     ''async-for'', ''with'', ''async-with'']"

definition tag_iteration :: "string set \<Rightarrow> string list" where
  "tag_iteration S = filter (\<lambda>t. t \<in> S) sniffable_tags"

text \<open>An abstract generator function that wraps nothing.\<close>

definition abstract_generator_store :: store where
  "abstract_generator_store = (\<lambda>_. plain_object)
     (0 := plain_object\<lparr> isabstractmethod := True, isgeneratorfunction := True \<rparr>)"

text \<open>An object whose \<open>__wrapped__\<close> attribute is the object itself.\<close>

definition self_wrapped_store :: store where
  "self_wrapped_store = (\<lambda>_. plain_object) (0 := plain_object\<lparr> wrapped_attr := Some 0 \<rparr>)"

section \<open>The metadata splitter\<close>

text \<open>
  \<open>separate_metadata\<close> calls two library functions that are not part of the
  repository: \<open>sphinx.util.docstrings.prepare_docstring\<close>, which turns the docstring
  into lines, and the compiled docutils pattern \<open>Body.patterns['field_marker']\<close>. In the
  model they are the parameters \<open>prepare\<close> and \<open>fm\<close>: \<open>fm line\<close> is \<open>None\<close> when
  \<open>FIELD_LIST_ITEM_RE.match(line)\<close> fails and \<open>Some e\<close> when it succeeds with
  \<open>matched.end() = e\<close> (the match starts at the first character, so
  \<open>matched.group()\<close> is the first \<open>e\<close> characters of the line). Models of the two library
  functions follow below and serve for the concrete examples.
\<close>

record splitter_state =
  in_other_element :: bool
  metadata :: "string \<rightharpoonup> string"
  lines :: "string list"

definition initial_state :: splitter_state where
  "initial_state = \<lparr> in_other_element = False, metadata = Map.empty, lines = [] \<rparr>"

definition startswith :: "string \<Rightarrow> string \<Rightarrow> bool" where
  "startswith s pre = (take (length pre) s = pre)"

text \<open>Lines 370 to 384: the body of the loop, for one line.\<close>

definition separate_step :: "(string \<Rightarrow> nat option) \<Rightarrow> splitter_state \<Rightarrow> string \<Rightarrow> splitter_state" where
  "separate_step fm st line =
    (if strip line = [] then
       st\<lparr> in_other_element := False, lines := lines st @ [line] \<rparr>
     else
       (case fm line of
          Some e \<Rightarrow>
            (if \<not> in_other_element st then
               (let field_name = takeWhile (\<lambda>c. c \<noteq> CHR '':'') (drop 1 (take e line))
                in if startswith field_name ''trio '' then
                     (let name = strip (drop 5 field_name)
                      in st\<lparr> metadata := (metadata st)(name \<mapsto> strip (drop e line)) \<rparr>)
                   else st\<lparr> lines := lines st @ [line] \<rparr>)
             else st\<lparr> in_other_element := True, lines := lines st @ [line] \<rparr>)
        | None \<Rightarrow> st\<lparr> in_other_element := True, lines := lines st @ [line] \<rparr>))"

text \<open>Line 369: the loop over the prepared lines.\<close>

fun separate_loop :: "(string \<Rightarrow> nat option) \<Rightarrow> splitter_state \<Rightarrow> string list \<Rightarrow> splitter_state" where
  "separate_loop fm st [] = st"
| "separate_loop fm st (line # rest) = separate_loop fm (separate_step fm st line) rest"

text \<open>\<open>"\n".join(lines)\<close>.\<close>

fun join_lines :: "string list \<Rightarrow> string" where
  "join_lines [] = []"
| "join_lines [l] = l"
| "join_lines (l # m # ls) = l @ [CHR 0x0A] @ join_lines (m # ls)"

text \<open>\<open>separate_metadata\<close>, lines 358 to 386.\<close>

definition separate_metadata ::
  "(string \<Rightarrow> string list) \<Rightarrow> (string \<Rightarrow> nat option) \<Rightarrow> string \<Rightarrow> string \<times> (string \<rightharpoonup> string)" where
  "separate_metadata prepare fm s =
    (if s = [] then (s, Map.empty)
     else (let st = separate_loop fm initial_state (prepare s)
           in (join_lines (lines st), metadata st)))"

text \<open>
  What the loop extracts from a line when it treats it as a field: the tag name and the
  value, for a line that is not blank, matches the field marker and has a field name
  that starts with \<open>trio\<close> and a space. This is the reading of "a field-list line with a
  reserved-prefix name" used in the statements below.
\<close>

definition reserved_field :: "(string \<Rightarrow> nat option) \<Rightarrow> string \<Rightarrow> (string \<times> string) option" where
  "reserved_field fm line =
    (if strip line = [] then None
     else case fm line of
            None \<Rightarrow> None
          | Some e \<Rightarrow>
              (let field_name = takeWhile (\<lambda>c. c \<noteq> CHR '':'') (drop 1 (take e line))
               in if startswith field_name ''trio ''
                  then Some (strip (drop 5 field_name), strip (drop e line))
                  else None))"



subsection \<open>The docutils field marker\<close>

text \<open>
  A model of matching the docutils pattern
  \<^verbatim>\<open>:(?![: ])([^:\\]|\\.|:(?!([ `]|$)))*(?<! ):( +|$)\<close>
  at the start of a line. The three alternatives under the star begin with different
  characters, so the star has one way to proceed; it stops at a colon followed by a
  space, a backquote or the end, at a backslash with nothing to escape, or at the end.
  No shorter run of the star can be followed by the closing colon, so the pattern
  matches exactly when the closing colon stands where the star stops.
\<close>

text \<open>\<open>$\<close>: the end of the string, or just before a newline that ends it.\<close>

definition at_end :: "string \<Rightarrow> bool" where
  "at_end s = (s = [] \<or> s = [CHR 0x0A])"

text \<open>The star: returns the last character consumed and the rest of the line.\<close>

fun marker_star :: "char \<Rightarrow> string \<Rightarrow> char \<times> string" where
  "marker_star prev [] = (prev, [])"
| "marker_star prev (c # cs) =
    (if c = CHR '':'' then
       (if at_end cs \<or> hd cs = CHR '' '' \<or> hd cs = CHR 0x60 then (prev, c # cs)
        else marker_star c cs)
     else if c = CHR 0x5C then
       (case cs of
          [] \<Rightarrow> (prev, c # cs)
        | d # ds \<Rightarrow> if d = CHR 0x0A then (prev, c # cs) else marker_star d ds)
     else marker_star c cs)"

definition field_marker_match :: "string \<Rightarrow> nat option" where
  "field_marker_match line =
    (case line of
       [] \<Rightarrow> None
     | c # cs \<Rightarrow>
         if c \<noteq> CHR '':'' then None
         else if cs \<noteq> [] \<and> (hd cs = CHR '':'' \<or> hd cs = CHR '' '') then None
         else (case marker_star c cs of
                 (prev, rest) \<Rightarrow>
                   (case rest of
                      [] \<Rightarrow> None
                    | d # r \<Rightarrow>
                        if d = CHR '':'' \<and> prev \<noteq> CHR '' '' then
                          (if r \<noteq> [] \<and> hd r = CHR '' ''
                           then Some (length line - length (dropWhile (\<lambda>x. x = CHR '' '') r))
                           else if at_end r then Some (length line - length r)
                           else None)
                        else None)))"

subsection \<open>The Sphinx docstring preparation\<close>

text \<open>
  A model of \<open>prepare_docstring(s)\<close>: expand tabs, split into lines, strip the first
  line on the left, remove the common indentation of the other lines, drop leading
  empty lines, and make sure the last line is empty.
\<close>

text \<open>\<open>str.expandtabs(8)\<close>, with the column counted from \<open>j\<close>.\<close>

fun expandtabs :: "nat \<Rightarrow> string \<Rightarrow> string" where
  "expandtabs j [] = []"
| "expandtabs j (c # cs) =
    (if c = CHR 0x09 then replicate (8 - j mod 8) CHR '' '' @ expandtabs (j + (8 - j mod 8)) cs
     else c # expandtabs (if c = CHR 0x0A \<or> c = CHR 0x0D then 0 else j + 1) cs)"

text \<open>The line boundaries of \<open>str.splitlines()\<close> among the code points below 256.\<close>

definition linebreaks :: "char list" where
  "linebreaks = [CHR 0x0A, CHR 0x0B, CHR 0x0C, CHR 0x0D, CHR 0x1C, CHR 0x1D, CHR 0x1E, CHR 0x85]"

text \<open>\<open>str.splitlines()\<close>; \<open>cur\<close> is the line being read. A carriage return and a
  line feed in a row are one boundary.\<close>

fun splitlines :: "string \<Rightarrow> string \<Rightarrow> string list" where
  "splitlines cur [] = (if cur = [] then [] else [cur])"
| "splitlines cur (c # cs) =
    (if c = CHR 0x0D then
       (case cs of
          [] \<Rightarrow> [cur]
        | d # ds \<Rightarrow> if d = CHR 0x0A then cur # splitlines [] ds else cur # splitlines [] cs)
     else if c \<in> set linebreaks then cur # splitlines [] cs
     else splitlines (cur @ [c]) cs)"

definition indent_of :: "string \<Rightarrow> nat" where
  "indent_of line = length line - length (lstrip line)"

text \<open>The least indentation of the lines that are not blank, if there is such a line.\<close>

fun margin_of :: "string list \<Rightarrow> nat option" where
  "margin_of [] = None"
| "margin_of (line # rest) =
    (if lstrip line = [] then margin_of rest
     else (case margin_of rest of
             None \<Rightarrow> Some (indent_of line)
           | Some m \<Rightarrow> Some (min m (indent_of line))))"

definition prepare_docstring :: "string \<Rightarrow> string list" where
  "prepare_docstring s =
    (let lines0 = splitlines [] (expandtabs 0 s);
         margin = margin_of (tl lines0);
         lines1 = (case lines0 of
                     [] \<Rightarrow> []
                   | first # others \<Rightarrow>
                       lstrip first # (case margin of
                                         None \<Rightarrow> others
                                       | Some m \<Rightarrow> map (drop m) others));
         lines2 = dropWhile (\<lambda>l. l = []) lines1
     in if lines2 \<noteq> [] \<and> last lines2 \<noteq> [] then lines2 @ [[]] else lines2)"

section \<open>The rendering hook\<close>

text \<open>
  A field of a field list, as far as the hook looks at it: the text of its first child
  (the field name) and the rest. The content of a description is a list of nodes, of
  which some are field lists.
\<close>

record field =
  name_text :: string     \<comment> \<open>\<open>field[0].astext()\<close>\<close>
  body_text :: string

datatype content_node = field_list "field list" | other_node string

text \<open>
  Lines 351 to 355, the loop over the fields of one field list: \<open>node\<close> is the whole
  list, \<open>todo\<close> the fields not yet visited. At the first field with a matching name the
  field is removed from \<open>node\<close> and the loop is left by \<open>break\<close>.
\<close>

fun filter_fields :: "field list \<Rightarrow> field list \<Rightarrow> field list" where
  "filter_fields node [] = node"
| "filter_fields node (field # todo) =
    (let field_name = strip (name_text field)
     in if field_name = ''trio'' \<or> startswith field_name ''trio ''
        then remove1 field node
        else filter_fields node todo)"

text \<open>Lines 349 and 350: the loop over the nodes of the content.\<close>

fun filter_nodes :: "content_node list \<Rightarrow> content_node list" where
  "filter_nodes [] = []"
| "filter_nodes (field_list fs # rest) = field_list (filter_fields fs fs) # filter_nodes rest"
| "filter_nodes (other_node x # rest) = other_node x # filter_nodes rest"

text \<open>
  \<open>filter_trio_fields\<close>, lines 342 to 355. The arguments \<open>app\<close> and \<open>objtype\<close> are not
  used. The source mutates \<open>content\<close>; the model returns it.
\<close>

definition filter_trio_fields :: "string \<Rightarrow> content_node list \<Rightarrow> content_node list" where
  "filter_trio_fields domain content = (if domain \<noteq> ''py'' then content else filter_nodes content)"

text \<open>The field list of a docstring with the fields \<open>:trio with: x\<close> and \<open>:trio async:\<close>.\<close>

definition two_trio_fields :: "content_node list" where
  "two_trio_fields =
     [field_list [\<lparr> name_text = ''trio with'', body_text = ''x'' \<rparr>,
                  \<lparr> name_text = ''trio async'', body_text = [] \<rparr>]]"

section \<open>Properties of the sniffer\<close>

lemma sniff_independent_eq: "sniff_independent obj S = S \<union> detected_independent obj"
  by (auto simp: sniff_independent_def detected_independent_def Let_def)

lemma sniff_exclusive_eq: "sniff_exclusive obj S = S \<union> detected_exclusive obj"
  by (auto simp: sniff_exclusive_def detected_exclusive_def Let_def)

lemma detected_independent_sub: "detected_independent obj \<subseteq> INDEPENDENT_OPTIONS"
  by (auto simp: detected_independent_def INDEPENDENT_OPTIONS_def)

lemma detected_exclusive_sub: "detected_exclusive obj \<subseteq> EXCLUSIVE_OPTIONS"
  by (auto simp: detected_exclusive_def EXCLUSIVE_OPTIONS_def)

lemma indep_excl_disjoint: "INDEPENDENT_OPTIONS \<inter> EXCLUSIVE_OPTIONS = {}"
  by (simp add: INDEPENDENT_OPTIONS_def EXCLUSIVE_OPTIONS_def)

lemma sniff_layer_eq:
  "sniff_layer obj S = S \<union> detected_independent obj
      \<union> (if S \<inter> EXCLUSIVE_OPTIONS = {} then detected_exclusive obj else {})"
  using detected_independent_sub[of obj] indep_excl_disjoint
  by (auto simp: sniff_layer_def Let_def sniff_independent_eq sniff_exclusive_eq)

lemma sniff_layer_exclusive_free:
  "sniff_layer obj S \<inter> EXCLUSIVE_OPTIONS = {} \<longleftrightarrow>
     S \<inter> EXCLUSIVE_OPTIONS = {} \<and> detected_exclusive obj = {}"
  using detected_independent_sub[of obj] detected_exclusive_sub[of obj] indep_excl_disjoint
  by (auto simp: sniff_layer_eq)

lemma first_exclusive_Nil: "first_exclusive st [] = {}"
  by (simp add: first_exclusive_def)

lemma first_exclusive_Cons:
  "first_exclusive st (x # xs) =
     (if detected_exclusive (st x) \<noteq> {} then detected_exclusive (st x) else first_exclusive st xs)"
  by (simp add: first_exclusive_def)

lemma first_exclusive_sub: "first_exclusive st xs \<subseteq> EXCLUSIVE_OPTIONS"
  using detected_exclusive_sub by (induction xs) (auto simp: first_exclusive_Nil first_exclusive_Cons)

text \<open>The loop on a chain, from any accumulator and any count.\<close>

lemma sniff_loop_chain:
  "is_chain st obj xs \<Longrightarrow>
   sniff_loop st S n obj =
     Some (S \<union> (\<Union>x\<in>set xs. detected_independent (st x))
             \<union> (if S \<inter> EXCLUSIVE_OPTIONS = {} then first_exclusive st xs else {}),
           n + length xs)"
proof (induction xs arbitrary: obj S n)
  case Nil
  then show ?case by simp
next
  case (Cons x xs)
  from Cons.prems have x: "x = obj" by simp
  show ?case
  proof (cases "next_link (st obj)")
    case None
    with Cons.prems have "xs = []" by simp
    with None x show ?thesis
      by (subst sniff_loop.simps)
         (auto simp: sniff_layer_eq first_exclusive_Cons first_exclusive_Nil)
  next
    case (Some nxt)
    with Cons.prems have "is_chain st nxt xs" by simp
    from Cons.IH[OF this, of "sniff_layer (st obj) S" "Suc n"] Some x show ?thesis
      by (subst sniff_loop.simps)
         (simp add: sniff_layer_exclusive_free first_exclusive_Cons, auto simp: sniff_layer_eq)
  qed
qed

text \<open>
  C1. The claim: the set \<open>sniff_options\<close> returns holds at most one tag of the exclusive
  group. The check \<open>if not (options & EXCLUSIVE_OPTIONS)\<close> is made once per layer, before
  the seven tests of that layer, and all but the first two of them are plain \<open>if\<close>s. So
  one layer can add several exclusive tags: for an \<open>async def\<close> function carrying the
  marker \<open>__returns_contextmanager__\<close> the sniffer returns both \<open>async\<close> and \<open>with\<close>.
\<close>

theorem sniff_options_two_exclusive_tags:
  "sniff_options async_cm_store 0 = Some {''async'', ''with''}
   \<and> card ({''async'', ''with''} \<inter> EXCLUSIVE_OPTIONS) = 2"
  by (simp add: sniff_options_def sniff_loop.simps async_cm_store_def next_link_def
      plain_object_def sniff_layer_def sniff_independent_def sniff_exclusive_def
      EXCLUSIVE_OPTIONS_def code_in_def insert_commute)

text \<open>
  C2. On a chain of \<open>N\<close> objects that ends, \<open>sniff_options\<close> returns after looking at
  \<open>N\<close> objects; the independent tags of its result are the union of those detected on
  every layer; its exclusive tags are those of the first layer that yields any.
\<close>

theorem sniff_options_on_chain:
  assumes "is_chain st obj xs"
  shows "\<exists>S. sniff_options st obj = Some S
           \<and> sniff_visits st obj = Some (length xs)
           \<and> S \<inter> INDEPENDENT_OPTIONS = (\<Union>x\<in>set xs. detected_independent (st x))
           \<and> S \<inter> EXCLUSIVE_OPTIONS = first_exclusive st xs
           \<and> S \<subseteq> INDEPENDENT_OPTIONS \<union> EXCLUSIVE_OPTIONS"
proof -
  let ?I = "\<Union>x\<in>set xs. detected_independent (st x)"
  let ?E = "first_exclusive st xs"
  have loop: "sniff_loop st {} 0 obj = Some (?I \<union> ?E, length xs)"
    using sniff_loop_chain[OF assms, of "{}" 0] by simp
  have I: "?I \<subseteq> INDEPENDENT_OPTIONS"
    using detected_independent_sub by auto
  have E: "?E \<subseteq> EXCLUSIVE_OPTIONS"
    by (rule first_exclusive_sub)
  have "(?I \<union> ?E) \<inter> INDEPENDENT_OPTIONS = ?I"
    using I E indep_excl_disjoint by auto
  moreover have "(?I \<union> ?E) \<inter> EXCLUSIVE_OPTIONS = ?E"
    using I E indep_excl_disjoint by auto
  moreover have "?I \<union> ?E \<subseteq> INDEPENDENT_OPTIONS \<union> EXCLUSIVE_OPTIONS"
    using I E by auto
  ultimately show ?thesis
    using loop by (simp add: sniff_options_def sniff_visits_def)
qed

theorem sniff_options_on_chain_witness:
  "is_chain layered_store 10 [10, 20, 30]
   \<and> (\<exists>S. sniff_options layered_store 10 = Some S
          \<and> sniff_visits layered_store 10 = Some 3
          \<and> S \<inter> INDEPENDENT_OPTIONS = {''abstractmethod'', ''staticmethod''}
          \<and> S \<inter> EXCLUSIVE_OPTIONS = {''async-for''})"
proof -
  have chain: "is_chain layered_store 10 [10, 20, 30]"
    by (simp add: layered_store_def next_link_def plain_object_def)
  have I: "(\<Union>x\<in>set [10, 20, 30]. detected_independent (layered_store x))
             = {''abstractmethod'', ''staticmethod''}"
    by (simp add: layered_store_def detected_independent_def plain_object_def insert_commute)
  have E: "first_exclusive layered_store [10, 20, 30] = {''async-for''}"
    by (simp add: first_exclusive_def layered_store_def detected_exclusive_def
        plain_object_def code_in_def)
  have len: "length [10, 20, 30 :: addr] = 3"
    by simp
  from sniff_options_on_chain[OF chain] obtain S where
    S: "sniff_options layered_store 10 = Some S"
       "sniff_visits layered_store 10 = Some 3"
       "S \<inter> INDEPENDENT_OPTIONS = {''abstractmethod'', ''staticmethod''}"
       "S \<inter> EXCLUSIVE_OPTIONS = {''async-for''}"
    unfolding I E len by (elim exE conjE)
  show ?thesis
    by (intro conjI exI[of _ S]) (fact chain S)+
qed

section \<open>Properties of the renderer\<close>

lemmas strip_defs = strip_def lstrip_def rstrip_def isspace_def whitespace_def

lemma strip_ellipsis: "strip ''...'' = ''...''"
  by (simp add: strip_defs)

lemma for_clauses_step:
  "options k \<noteq> Some PyNone \<Longrightarrow>
   for_clauses ((k, r) # rest) options ret =
     for_clauses rest options
       (ret @ (if k \<in> dom options then r @ '' '' @ bound_name options k @ '' in '' else []))"
proof (cases "options k")
  case None
  then show ?thesis by (simp add: domIff)
next
  case (Some val)
  assume "options k \<noteq> Some PyNone"
  with Some obtain name where "val = PyStr name"
    by (cases val) auto
  with Some show ?thesis
    by (simp add: domIff bound_name_def)
qed

lemma tag_words_simps:
  "tag_words options ''abstractmethod'' = ''abstractmethod ''"
  "tag_words options ''staticmethod'' = ''staticmethod ''"
  "tag_words options ''classmethod'' = ''classmethod ''"
  "tag_words options ''with'' = ''with ''"
  "tag_words options ''async-with'' = ''async with ''"
  "tag_words options ''for'' = ''for '' @ bound_name options ''for'' @ '' in ''"
  "tag_words options ''async-for'' = ''async for '' @ bound_name options ''async-for'' @ '' in ''"
  "tag_words options ''async'' = ''await ''"
  by (simp_all add: tag_words_def)

lemma tag_present_simps:
  "tag_present options objtype ''abstractmethod'' = (''abstractmethod'' \<in> dom options)"
  "tag_present options objtype ''staticmethod'' =
     (''staticmethod'' \<in> dom options \<or> objtype = ''staticmethod'')"
  "tag_present options objtype ''classmethod'' =
     (''classmethod'' \<in> dom options \<or> objtype = ''classmethod'')"
  "tag_present options objtype ''with'' = (''with'' \<in> dom options)"
  "tag_present options objtype ''async-with'' = (''async-with'' \<in> dom options)"
  "tag_present options objtype ''for'' = (''for'' \<in> dom options)"
  "tag_present options objtype ''async-for'' = (''async-for'' \<in> dom options)"
  "tag_present options objtype ''async'' = (''async'' \<in> dom options)"
  by (auto simp add: tag_present_def)

lemma if_append: "(if c then r @ w else r) = r @ (if c then w else [])"
  by simp

text \<open>The accumulated prefix is the concatenation of the words of the present tags.\<close>

lemma prefix_is_rendered_prefix:
  assumes "options ''for'' \<noteq> Some PyNone" "options ''async-for'' \<noteq> Some PyNone"
  shows "u_get_signature_prefix options objtype = Inr (rendered_prefix options objtype)"
proof -
  have fc: "for_clauses [(''for'', ''for''), (''async-for'', ''async for'')] options ret
        = Inr (ret @ (if ''for'' \<in> dom options then tag_words options ''for'' else [])
                   @ (if ''async-for'' \<in> dom options then tag_words options ''async-for'' else []))"
    for ret
    by (simp add: for_clauses_step assms tag_words_simps del: for_clauses.simps(2))
  show ?thesis
    unfolding u_get_signature_prefix_def Let_def fc rendered_prefix_def prefix_order_def
      if_append
    by (simp add: tag_present_simps tag_words_simps if_append)
qed

lemma abstract_classmethod_async_rendering:
  assumes "dom options = {''abstractmethod'', ''classmethod'', ''async''}"
      and "objtype \<noteq> ''staticmethod''"
  shows "u_get_signature_prefix options objtype = Inr ''abstractmethod classmethod await ''"
    and "handle_signature options objtype signode =
           Inr (desc_annotation ''abstractmethod classmethod await ''
                # (if objtype \<in> set [''decorator'', ''decoratormethod'']
                   then desc_addname ''@'' # signode else signode))"
proof -
  have out: "''for'' \<notin> dom options" "''async-for'' \<notin> dom options" "''with'' \<notin> dom options"
      "''async-with'' \<notin> dom options" "''staticmethod'' \<notin> dom options"
      "''decorator'' \<notin> dom options"
    by (simp_all add: assms(1))
  have inn: "''abstractmethod'' \<in> dom options" "''classmethod'' \<in> dom options"
      "''async'' \<in> dom options"
    by (simp_all add: assms(1))
  have nd: "options ''for'' = None" "options ''async-for'' = None" "options ''with'' = None"
      "options ''async-with'' = None"
    using out by (simp_all add: domIff)
  show p: "u_get_signature_prefix options objtype = Inr ''abstractmethod classmethod await ''"
    by (simp add: u_get_signature_prefix_def out inn nd assms(2))
  show "handle_signature options objtype signode =
           Inr (desc_annotation ''abstractmethod classmethod await ''
                # (if objtype \<in> set [''decorator'', ''decoratormethod'']
                   then desc_addname ''@'' # signode else signode))"
    by (simp add: handle_signature_def p out nd)
qed

lemma dom_abstract_classmethod_async:
  "dom abstract_classmethod_async = {''abstractmethod'', ''classmethod'', ''async''}"
  by (simp add: abstract_classmethod_async_def insert_commute)

text \<open>
  C3. With the options \<open>abstractmethod\<close>, \<open>classmethod\<close> and \<open>async\<close> and nothing else
  the prefix is \<open>abstractmethod classmethod await\<close> followed by a space, and no
  annotation is appended to the signature. In general the prefix is made of the words of
  the present tags in the order abstractmethod, staticmethod, classmethod, with,
  async with, for ... in, async for ... in, await. (The values of \<open>for\<close> and \<open>async-for\<close>
  are strings, as the directive's option parser delivers them; the directive is not
  \<open>staticmethod\<close>, which would add that word.)
\<close>

theorem signature_prefix_fixed_order:
  "(options ''for'' \<noteq> Some PyNone \<and> options ''async-for'' \<noteq> Some PyNone \<longrightarrow>
      u_get_signature_prefix options objtype = Inr (rendered_prefix options objtype))
   \<and> (dom options = {''abstractmethod'', ''classmethod'', ''async''}
        \<and> objtype \<noteq> ''staticmethod'' \<longrightarrow>
      u_get_signature_prefix options objtype = Inr ''abstractmethod classmethod await ''
      \<and> handle_signature options objtype signode =
           Inr (desc_annotation ''abstractmethod classmethod await ''
                # (if objtype \<in> set [''decorator'', ''decoratormethod'']
                   then desc_addname ''@'' # signode else signode)))"
  using prefix_is_rendered_prefix abstract_classmethod_async_rendering
  by (intro conjI impI) (elim conjE, assumption)+

theorem signature_prefix_fixed_order_witness:
  "abstract_classmethod_async ''for'' \<noteq> Some PyNone
   \<and> abstract_classmethod_async ''async-for'' \<noteq> Some PyNone
   \<and> dom abstract_classmethod_async = {''abstractmethod'', ''classmethod'', ''async''}
   \<and> ''method'' \<noteq> ''staticmethod''
   \<and> u_get_signature_prefix abstract_classmethod_async ''method''
        = Inr (rendered_prefix abstract_classmethod_async ''method'')
   \<and> u_get_signature_prefix abstract_classmethod_async ''method''
        = Inr ''abstractmethod classmethod await ''
   \<and> handle_signature abstract_classmethod_async ''method'' [host_node ''foo()'']
        = Inr [desc_annotation ''abstractmethod classmethod await '', host_node ''foo()'']"
proof -
  have h1: "abstract_classmethod_async ''for'' \<noteq> Some PyNone"
    and h2: "abstract_classmethod_async ''async-for'' \<noteq> Some PyNone"
    by (simp_all add: abstract_classmethod_async_def)
  have h3: "''method'' \<noteq> ''staticmethod''"
    by simp
  note h4 = dom_abstract_classmethod_async
  note inst = signature_prefix_fixed_order[of abstract_classmethod_async "''method''"
      "[host_node ''foo()'']"]
  have c1: "u_get_signature_prefix abstract_classmethod_async ''method''
        = Inr (rendered_prefix abstract_classmethod_async ''method'')"
    by (rule inst[THEN conjunct1, THEN mp]) (intro conjI h1 h2)
  have c2: "u_get_signature_prefix abstract_classmethod_async ''method''
        = Inr ''abstractmethod classmethod await ''
      \<and> handle_signature abstract_classmethod_async ''method'' [host_node ''foo()'']
        = Inr (desc_annotation ''abstractmethod classmethod await ''
                # (if ''method'' \<in> set [''decorator'', ''decoratormethod'']
                   then desc_addname ''@'' # [host_node ''foo()''] else [host_node ''foo()'']))"
    by (rule inst[THEN conjunct2, THEN mp]) (intro conjI h3 h4)
  have c3: "handle_signature abstract_classmethod_async ''method'' [host_node ''foo()'']
        = Inr [desc_annotation ''abstractmethod classmethod await '', host_node ''foo()'']"
    using c2[THEN conjunct2] by simp
  show ?thesis
    by (intro conjI h1 h2 h3 h4 c1 c2[THEN conjunct1] c3)
qed

lemma words_of_Nil: "words_of options objtype [] = []"
  by (simp add: words_of_def)

lemma words_of_Cons:
  "words_of options objtype (tag # tags) =
     (if tag_present options objtype tag then tag_words options tag else [])
     @ words_of options objtype tags"
  by (simp add: words_of_def)

lemma words_of_append:
  "words_of options objtype (xs @ ys) = words_of options objtype xs @ words_of options objtype ys"
  by (simp add: words_of_def)

lemma rendered_prefix_words: "rendered_prefix options objtype = words_of options objtype prefix_order"
  by (simp add: rendered_prefix_def words_of_def)

lemma suffix_annotations_step:
  "options k \<noteq> Some PyNone \<Longrightarrow>
   suffix_annotations (k # rest) options signode
     = suffix_annotations rest options (signode @ as_annotation options k)"
proof (cases "options k")
  case None
  then show ?thesis by (simp add: as_annotation_def)
next
  case (Some val)
  assume "options k \<noteq> Some PyNone"
  with Some obtain name where "val = PyStr name"
    by (cases val) auto
  with Some show ?thesis
    by (simp add: as_annotation_def)
qed

lemma handle_signature_rendering:
  assumes "options ''for'' \<noteq> Some PyNone" "options ''async-for'' \<noteq> Some PyNone"
      and "options ''with'' \<noteq> Some PyNone" "options ''async-with'' \<noteq> Some PyNone"
  shows "handle_signature options objtype signode =
           Inr ((if rendered_prefix options objtype \<noteq> []
                 then [desc_annotation (rendered_prefix options objtype)] else [])
                @ decorator_marker options objtype @ signode
                @ as_annotation options ''with'' @ as_annotation options ''async-with'')"
proof -
  have sa: "suffix_annotations [''with'', ''async-with''] options nodes
              = Inr (nodes @ as_annotation options ''with'' @ as_annotation options ''async-with'')"
    for nodes
    by (simp add: suffix_annotations_step assms(3,4) del: suffix_annotations.simps(2))
  show ?thesis
    unfolding handle_signature_def prefix_is_rendered_prefix[OF assms(1,2)] Let_def sa
    by (simp add: decorator_marker_def)
qed

lemma blank_name: "strip v = [] \<Longrightarrow> bound_name (options(k \<mapsto> PyStr v)) k = ''...''"
  by (simp add: bound_name_def)

lemma blank_annotation: "strip v = [] \<Longrightarrow> as_annotation (options(k \<mapsto> PyStr v)) k = []"
  by (simp add: as_annotation_def)

lemma present_upd: "tag_present (options(k \<mapsto> x)) objtype k"
  by (simp add: tag_present_def)

lemma prefix_split_for:
  "rendered_prefix options objtype =
     words_of options objtype [''abstractmethod'', ''staticmethod'', ''classmethod'', ''with'', ''async-with'']
     @ (if tag_present options objtype ''for'' then tag_words options ''for'' else [])
     @ words_of options objtype [''async-for'', ''async'']"
  by (simp add: rendered_prefix_def prefix_order_def words_of_def)

lemma prefix_split_async_for:
  "rendered_prefix options objtype =
     words_of options objtype [''abstractmethod'', ''staticmethod'', ''classmethod'', ''with'', ''async-with'', ''for'']
     @ (if tag_present options objtype ''async-for'' then tag_words options ''async-for'' else [])
     @ words_of options objtype [''async'']"
  by (simp add: rendered_prefix_def prefix_order_def words_of_def)

lemma prefix_split_with:
  "rendered_prefix options objtype =
     words_of options objtype [''abstractmethod'', ''staticmethod'', ''classmethod'']
     @ (if tag_present options objtype ''with'' then tag_words options ''with'' else [])
     @ words_of options objtype [''async-with'', ''for'', ''async-for'', ''async'']"
  by (simp add: rendered_prefix_def prefix_order_def words_of_def)

lemma prefix_split_async_with:
  "rendered_prefix options objtype =
     words_of options objtype [''abstractmethod'', ''staticmethod'', ''classmethod'', ''with'']
     @ (if tag_present options objtype ''async-with'' then tag_words options ''async-with'' else [])
     @ words_of options objtype [''for'', ''async-for'', ''async'']"
  by (simp add: rendered_prefix_def prefix_order_def words_of_def)

lemma tag_present_upd_other:
  "k \<noteq> tag \<Longrightarrow> tag_present (options(k \<mapsto> x)) objtype tag = tag_present options objtype tag"
  by (simp add: tag_present_def)

lemma tag_words_upd_other:
  "k \<noteq> tag \<Longrightarrow> tag_words (options(k \<mapsto> x)) tag = tag_words options tag"
  by (simp add: tag_words_def bound_name_def)

lemma words_of_upd_other:
  "k \<notin> set tags \<Longrightarrow> words_of (options(k \<mapsto> x)) objtype tags = words_of options objtype tags"
  by (induction tags) (simp_all add: words_of_Nil words_of_Cons tag_present_upd_other
      tag_words_upd_other)

lemma decorator_marker_upd_other:
  "k \<noteq> ''decorator'' \<Longrightarrow> decorator_marker (options(k \<mapsto> x)) objtype = decorator_marker options objtype"
  by (simp add: decorator_marker_def)

lemma as_annotation_upd_other:
  "k \<noteq> tag \<Longrightarrow> as_annotation (options(k \<mapsto> x)) tag = as_annotation options tag"
  by (simp add: as_annotation_def)

lemma blank_for_rendering:
  assumes "strip v = []"
      and "options ''async-for'' \<noteq> Some PyNone" "options ''with'' \<noteq> Some PyNone"
          "options ''async-with'' \<noteq> Some PyNone"
  shows "handle_signature (options(''for'' \<mapsto> PyStr v)) objtype signode =
     Inr (desc_annotation
            (words_of options objtype
               [''abstractmethod'', ''staticmethod'', ''classmethod'', ''with'', ''async-with'']
             @ ''for ... in ''
             @ words_of options objtype [''async-for'', ''async''])
          # decorator_marker options objtype @ signode
          @ as_annotation options ''with'' @ as_annotation options ''async-with'')"
proof -
  let ?o = "options(''for'' \<mapsto> PyStr v)"
  have ok: "?o ''for'' \<noteq> Some PyNone" "?o ''async-for'' \<noteq> Some PyNone"
      "?o ''with'' \<noteq> Some PyNone" "?o ''async-with'' \<noteq> Some PyNone"
    using assms(2-4) by simp_all
  have w: "tag_words ?o ''for'' = ''for ... in ''"
    by (simp add: tag_words_simps blank_name[OF assms(1)])
  have p: "rendered_prefix ?o objtype =
      words_of options objtype [''abstractmethod'', ''staticmethod'', ''classmethod'', ''with'', ''async-with'']
      @ ''for ... in '' @ words_of options objtype [''async-for'', ''async'']"
    unfolding prefix_split_for[of ?o objtype] w
    by (simp add: present_upd words_of_upd_other)
  show ?thesis
    unfolding handle_signature_rendering[OF ok] p
    by (simp add: decorator_marker_upd_other as_annotation_upd_other)
qed

lemma blank_async_for_rendering:
  assumes "strip v = []"
      and "options ''for'' \<noteq> Some PyNone" "options ''with'' \<noteq> Some PyNone"
          "options ''async-with'' \<noteq> Some PyNone"
  shows "handle_signature (options(''async-for'' \<mapsto> PyStr v)) objtype signode =
     Inr (desc_annotation
            (words_of options objtype
               [''abstractmethod'', ''staticmethod'', ''classmethod'', ''with'', ''async-with'',
                ''for'']
             @ ''async for ... in ''
             @ words_of options objtype [''async''])
          # decorator_marker options objtype @ signode
          @ as_annotation options ''with'' @ as_annotation options ''async-with'')"
proof -
  let ?o = "options(''async-for'' \<mapsto> PyStr v)"
  have ok: "?o ''for'' \<noteq> Some PyNone" "?o ''async-for'' \<noteq> Some PyNone"
      "?o ''with'' \<noteq> Some PyNone" "?o ''async-with'' \<noteq> Some PyNone"
    using assms(2-4) by simp_all
  have w: "tag_words ?o ''async-for'' = ''async for ... in ''"
    by (simp add: tag_words_simps blank_name[OF assms(1)])
  have p: "rendered_prefix ?o objtype =
      words_of options objtype [''abstractmethod'', ''staticmethod'', ''classmethod'', ''with'',
                                ''async-with'', ''for'']
      @ ''async for ... in '' @ words_of options objtype [''async'']"
    unfolding prefix_split_async_for[of ?o objtype] w
    by (simp add: present_upd words_of_upd_other)
  show ?thesis
    unfolding handle_signature_rendering[OF ok] p
    by (simp add: decorator_marker_upd_other as_annotation_upd_other)
qed

lemma blank_with_rendering:
  assumes "strip v = []"
      and "options ''for'' \<noteq> Some PyNone" "options ''async-for'' \<noteq> Some PyNone"
          "options ''async-with'' \<noteq> Some PyNone"
  shows "handle_signature (options(''with'' \<mapsto> PyStr v)) objtype signode =
     Inr (desc_annotation
            (words_of options objtype [''abstractmethod'', ''staticmethod'', ''classmethod'']
             @ ''with ''
             @ words_of options objtype [''async-with'', ''for'', ''async-for'', ''async''])
          # decorator_marker options objtype @ signode
          @ as_annotation options ''async-with'')"
proof -
  let ?o = "options(''with'' \<mapsto> PyStr v)"
  have ok: "?o ''for'' \<noteq> Some PyNone" "?o ''async-for'' \<noteq> Some PyNone"
      "?o ''with'' \<noteq> Some PyNone" "?o ''async-with'' \<noteq> Some PyNone"
    using assms(2-4) by simp_all
  have p: "rendered_prefix ?o objtype =
      words_of options objtype [''abstractmethod'', ''staticmethod'', ''classmethod'']
      @ ''with '' @ words_of options objtype [''async-with'', ''for'', ''async-for'', ''async'']"
    unfolding prefix_split_with[of ?o objtype]
    by (simp add: present_upd words_of_upd_other tag_words_simps)
  show ?thesis
    unfolding handle_signature_rendering[OF ok] p
    by (simp add: decorator_marker_upd_other as_annotation_upd_other
        blank_annotation[OF assms(1)])
qed

lemma blank_async_with_rendering:
  assumes "strip v = []"
      and "options ''for'' \<noteq> Some PyNone" "options ''async-for'' \<noteq> Some PyNone"
          "options ''with'' \<noteq> Some PyNone"
  shows "handle_signature (options(''async-with'' \<mapsto> PyStr v)) objtype signode =
     Inr (desc_annotation
            (words_of options objtype [''abstractmethod'', ''staticmethod'', ''classmethod'',
                                       ''with'']
             @ ''async with ''
             @ words_of options objtype [''for'', ''async-for'', ''async''])
          # decorator_marker options objtype @ signode
          @ as_annotation options ''with'')"
proof -
  let ?o = "options(''async-with'' \<mapsto> PyStr v)"
  have ok: "?o ''for'' \<noteq> Some PyNone" "?o ''async-for'' \<noteq> Some PyNone"
      "?o ''with'' \<noteq> Some PyNone" "?o ''async-with'' \<noteq> Some PyNone"
    using assms(2-4) by simp_all
  have p: "rendered_prefix ?o objtype =
      words_of options objtype [''abstractmethod'', ''staticmethod'', ''classmethod'', ''with'']
      @ ''async with '' @ words_of options objtype [''for'', ''async-for'', ''async'']"
    unfolding prefix_split_async_with[of ?o objtype]
    by (simp add: present_upd words_of_upd_other tag_words_simps)
  show ?thesis
    unfolding handle_signature_rendering[OF ok] p
    by (simp add: decorator_marker_upd_other as_annotation_upd_other
        blank_annotation[OF assms(1)])
qed

text \<open>
  C7, as the claim states it: a tag \<open>with\<close> whose bound name is absent is rendered with
  \<open>...\<close> in place of the name. For \<open>.. function:: foo(x, y)\<close> with an empty \<open>:with:\<close> the
  signature gets the prefix \<open>with\<close> and nothing else: no node mentions \<open>...\<close>.
\<close>

theorem with_blank_name_has_no_ellipsis:
  "handle_signature [''with'' \<mapsto> PyStr []] ''function'' [host_node ''foo(x, y)'']
     = Inr [desc_annotation ''with '', host_node ''foo(x, y)'']
   \<and> \<not> mentions_ellipsis [desc_annotation ''with '', host_node ''foo(x, y)'']"
  by (simp add: handle_signature_def u_get_signature_prefix_def strip_defs node_text_def)

text \<open>
  C7, amended. Let the value of a tag be empty or blank, and the values of the other
  three valued tags be strings. For \<open>for\<close> the signature gets the prefix made of the
  words of the tags before it, then \<open>for ... in\<close> and a space, then the words of the
  tags after it; likewise \<open>async for ... in\<close> for \<open>async-for\<close>. For \<open>with\<close> the prefix
  has the word \<open>with\<close> and a space at the tag's place, and the only annotation after the
  signature is that of \<open>async-with\<close>; likewise \<open>async with\<close> for \<open>async-with\<close>, with
  only the annotation of \<open>with\<close>. So a blank name is replaced by \<open>...\<close> for the two
  \<open>for\<close> tags and left out, with its \<open>as\<close>, for the two \<open>with\<close> tags.
\<close>

theorem blank_bound_name_rendering:
  assumes "strip v = []"
  shows
   "(options ''async-for'' \<noteq> Some PyNone \<and> options ''with'' \<noteq> Some PyNone
       \<and> options ''async-with'' \<noteq> Some PyNone \<longrightarrow>
     handle_signature (options(''for'' \<mapsto> PyStr v)) objtype signode =
       Inr (desc_annotation
              (words_of options objtype
                 [''abstractmethod'', ''staticmethod'', ''classmethod'', ''with'', ''async-with'']
               @ ''for ... in ''
               @ words_of options objtype [''async-for'', ''async''])
            # decorator_marker options objtype @ signode
            @ as_annotation options ''with'' @ as_annotation options ''async-with''))
  \<and> (options ''for'' \<noteq> Some PyNone \<and> options ''with'' \<noteq> Some PyNone
       \<and> options ''async-with'' \<noteq> Some PyNone \<longrightarrow>
     handle_signature (options(''async-for'' \<mapsto> PyStr v)) objtype signode =
       Inr (desc_annotation
              (words_of options objtype
                 [''abstractmethod'', ''staticmethod'', ''classmethod'', ''with'', ''async-with'',
                  ''for'']
               @ ''async for ... in ''
               @ words_of options objtype [''async''])
            # decorator_marker options objtype @ signode
            @ as_annotation options ''with'' @ as_annotation options ''async-with''))
  \<and> (options ''for'' \<noteq> Some PyNone \<and> options ''async-for'' \<noteq> Some PyNone
       \<and> options ''async-with'' \<noteq> Some PyNone \<longrightarrow>
     handle_signature (options(''with'' \<mapsto> PyStr v)) objtype signode =
       Inr (desc_annotation
              (words_of options objtype [''abstractmethod'', ''staticmethod'', ''classmethod'']
               @ ''with ''
               @ words_of options objtype [''async-with'', ''for'', ''async-for'', ''async''])
            # decorator_marker options objtype @ signode
            @ as_annotation options ''async-with''))
  \<and> (options ''for'' \<noteq> Some PyNone \<and> options ''async-for'' \<noteq> Some PyNone
       \<and> options ''with'' \<noteq> Some PyNone \<longrightarrow>
     handle_signature (options(''async-with'' \<mapsto> PyStr v)) objtype signode =
       Inr (desc_annotation
              (words_of options objtype [''abstractmethod'', ''staticmethod'', ''classmethod'',
                                         ''with'']
               @ ''async with ''
               @ words_of options objtype [''for'', ''async-for'', ''async''])
            # decorator_marker options objtype @ signode
            @ as_annotation options ''with''))"
  using blank_for_rendering[OF assms, of options objtype signode]
    blank_async_for_rendering[OF assms, of options objtype signode]
    blank_with_rendering[OF assms, of options objtype signode]
    blank_async_with_rendering[OF assms, of options objtype signode]
  by (intro conjI impI) (elim conjE, assumption)+

theorem blank_bound_name_rendering_witness:
  "strip '' '' = []
   \<and> abstract_only ''for'' \<noteq> Some PyNone \<and> abstract_only ''async-for'' \<noteq> Some PyNone
   \<and> abstract_only ''with'' \<noteq> Some PyNone \<and> abstract_only ''async-with'' \<noteq> Some PyNone
   \<and> handle_signature (abstract_only(''for'' \<mapsto> PyStr '' '')) ''method'' [host_node ''foo(x)'']
        = Inr [desc_annotation ''abstractmethod for ... in '', host_node ''foo(x)'']
   \<and> handle_signature (abstract_only(''async-for'' \<mapsto> PyStr '' '')) ''method''
          [host_node ''foo(x)'']
        = Inr [desc_annotation ''abstractmethod async for ... in '', host_node ''foo(x)'']
   \<and> handle_signature (abstract_only(''with'' \<mapsto> PyStr '' '')) ''method'' [host_node ''foo(x)'']
        = Inr [desc_annotation ''abstractmethod with '', host_node ''foo(x)'']
   \<and> handle_signature (abstract_only(''async-with'' \<mapsto> PyStr '' '')) ''method''
          [host_node ''foo(x)'']
        = Inr [desc_annotation ''abstractmethod async with '', host_node ''foo(x)'']"
proof -
  have blank: "strip '' '' = []"
    by (simp add: strip_defs)
  have h: "abstract_only ''for'' \<noteq> Some PyNone" "abstract_only ''async-for'' \<noteq> Some PyNone"
      "abstract_only ''with'' \<noteq> Some PyNone" "abstract_only ''async-with'' \<noteq> Some PyNone"
    by (simp_all add: abstract_only_def)
  have w: "words_of abstract_only ''method'' tags
             = (if ''abstractmethod'' \<in> set tags then ''abstractmethod '' else [])"
    if "set tags \<subseteq> set prefix_order" "distinct tags" for tags
    using that
    by (induction tags)
       (auto simp: words_of_Nil words_of_Cons tag_present_def tag_words_simps abstract_only_def
          prefix_order_def)
  have m: "decorator_marker abstract_only ''method'' = []"
    by (simp add: decorator_marker_def abstract_only_def)
  have a: "as_annotation abstract_only ''with'' = []"
      "as_annotation abstract_only ''async-with'' = []"
    by (simp_all add: as_annotation_def abstract_only_def)
  note inst = blank_bound_name_rendering[OF blank, of abstract_only "''method''"
      "[host_node ''foo(x)'']"]
  have c1: "handle_signature (abstract_only(''for'' \<mapsto> PyStr '' '')) ''method''
              [host_node ''foo(x)'']
        = Inr [desc_annotation ''abstractmethod for ... in '', host_node ''foo(x)'']"
    using inst[THEN conjunct1, THEN mp, OF conjI[OF h(2) conjI[OF h(3) h(4)]]]
    by (simp add: w prefix_order_def m a)
  have c2: "handle_signature (abstract_only(''async-for'' \<mapsto> PyStr '' '')) ''method''
              [host_node ''foo(x)'']
        = Inr [desc_annotation ''abstractmethod async for ... in '', host_node ''foo(x)'']"
    using inst[THEN conjunct2, THEN conjunct1, THEN mp, OF conjI[OF h(1) conjI[OF h(3) h(4)]]]
    by (simp add: w prefix_order_def m a)
  have c3: "handle_signature (abstract_only(''with'' \<mapsto> PyStr '' '')) ''method''
              [host_node ''foo(x)'']
        = Inr [desc_annotation ''abstractmethod with '', host_node ''foo(x)'']"
    using inst[THEN conjunct2, THEN conjunct2, THEN conjunct1, THEN mp,
        OF conjI[OF h(1) conjI[OF h(2) h(4)]]]
    by (simp add: w prefix_order_def m a)
  have c4: "handle_signature (abstract_only(''async-with'' \<mapsto> PyStr '' '')) ''method''
              [host_node ''foo(x)'']
        = Inr [desc_annotation ''abstractmethod async with '', host_node ''foo(x)'']"
    using inst[THEN conjunct2, THEN conjunct2, THEN conjunct2, THEN mp,
        OF conjI[OF h(1) conjI[OF h(2) h(3)]]]
    by (simp add: w prefix_order_def m a)
  show ?thesis
    by (intro conjI blank h c1 c2 c3 c4)
qed

section \<open>Properties of the merge\<close>

lemma setdefault_each_lookup:
  "setdefault_each attrs d k =
     (case d k of Some v \<Rightarrow> Some v | None \<Rightarrow> if k \<in> set attrs then Some PyNone else None)"
  by (induction attrs arbitrary: d) (auto simp: setdefault_def domIff split: option.splits)

lemma sniff_abstract_generator:
  "sniff_options abstract_generator_store 0 = Some {''abstractmethod'', ''for''}"
  by (simp add: sniff_options_def sniff_loop.simps abstract_generator_store_def next_link_def
      plain_object_def sniff_layer_def sniff_independent_def sniff_exclusive_def
      EXCLUSIVE_OPTIONS_def code_in_def insert_commute)

lemma tag_iteration_abstract_for:
  "set (tag_iteration {''abstractmethod'', ''for''}) = {''abstractmethod'', ''for''}"
  by (simp add: tag_iteration_def sniffable_tags_def)

text \<open>A loop that reaches the same object again has not returned.\<close>

lemma sniff_loop_self_link:
  "sniff_loop st S n obj = Some y \<Longrightarrow> next_link (st obj) \<noteq> Some obj"
proof (induction rule: sniff_loop.raw_induct[rotated 1, consumes 1])
  case (1 f st S n obj y)
  show ?case
  proof
    assume self: "next_link (st obj) = Some obj"
    with 1(2) have "f st (sniff_layer (st obj) S) (Suc n) obj = Some y"
      by simp
    from 1(1)[OF this] self show False
      by simp
  qed
qed

lemma sniff_self_wrapped: "sniff_options self_wrapped_store 0 = None"
proof (cases "sniff_loop self_wrapped_store {} 0 0")
  case None
  then show ?thesis by (simp add: sniff_options_def)
next
  case (Some y)
  from sniff_loop_self_link[OF this] show ?thesis
    by (simp add: self_wrapped_store_def next_link_def plain_object_def)
qed

text \<open>
  C4. Without \<open>no-auto-options\<close>, when the sniffer returns the set \<open>sniffed\<close>, the
  dictionary after the merge holds, for every key, the value it held before if it held
  one, and otherwise \<open>None\<close> if the key is a sniffed tag and nothing if it is not. So an
  explicit value is never changed, also for a tag the sniffer found.
\<close>

theorem update_with_sniffed_options_setdefault:
  assumes "''no-auto-options'' \<notin> dom option_dict"
      and "sniff_options st obj = Some sniffed"
      and "set (iter sniffed) = sniffed"
  shows "\<exists>d. update_with_sniffed_options iter st obj option_dict = Some d
            \<and> (\<forall>attr. d attr = (case option_dict attr of
                                   Some v \<Rightarrow> Some v
                                 | None \<Rightarrow> if attr \<in> sniffed then Some PyNone else None))"
  using assms by (simp add: update_with_sniffed_options_def setdefault_each_lookup)

theorem update_with_sniffed_options_setdefault_witness:
  "''no-auto-options'' \<notin> dom [''for'' \<mapsto> PyStr ''loop_var'']
   \<and> sniff_options abstract_generator_store 0 = Some {''abstractmethod'', ''for''}
   \<and> set (tag_iteration {''abstractmethod'', ''for''}) = {''abstractmethod'', ''for''}
   \<and> (\<exists>d. update_with_sniffed_options tag_iteration abstract_generator_store 0
              [''for'' \<mapsto> PyStr ''loop_var''] = Some d
          \<and> d ''for'' = Some (PyStr ''loop_var'')
          \<and> d ''abstractmethod'' = Some PyNone
          \<and> d ''with'' = None)"
proof -
  have h1: "''no-auto-options'' \<notin> dom [''for'' \<mapsto> PyStr ''loop_var'']"
    by simp
  from update_with_sniffed_options_setdefault[of "[''for'' \<mapsto> PyStr ''loop_var'']"
      abstract_generator_store 0 "{''abstractmethod'', ''for''}" tag_iteration,
      OF h1 sniff_abstract_generator tag_iteration_abstract_for]
  obtain d where
    d: "update_with_sniffed_options tag_iteration abstract_generator_store 0
              [''for'' \<mapsto> PyStr ''loop_var''] = Some d"
    and look: "\<And>attr. d attr = (case [''for'' \<mapsto> PyStr ''loop_var''] attr of
                                   Some v \<Rightarrow> Some v
                                 | None \<Rightarrow> if attr \<in> {''abstractmethod'', ''for''}
                                            then Some PyNone else None)"
    by (elim exE conjE) simp
  have "d ''for'' = Some (PyStr ''loop_var'')" "d ''abstractmethod'' = Some PyNone"
      "d ''with'' = None"
    by (simp_all add: look)
  with h1 sniff_abstract_generator tag_iteration_abstract_for d show ?thesis
    by (intro conjI exI[of _ d])
qed

text \<open>
  C9. With \<open>no-auto-options\<close> among the options, \<open>update_with_sniffed_options\<close> returns
  the dictionary as it was, whatever the object: also for an object on which the sniffer
  would not return, so the sniffer is not run.
\<close>

theorem update_with_sniffed_options_no_auto_options:
  assumes "''no-auto-options'' \<in> dom option_dict"
  shows "update_with_sniffed_options iter st obj option_dict = Some option_dict"
  using assms by (simp add: update_with_sniffed_options_def)

theorem update_with_sniffed_options_no_auto_options_witness:
  "''no-auto-options'' \<in> dom [''no-auto-options'' \<mapsto> PyNone]
   \<and> sniff_options self_wrapped_store 0 = None
   \<and> update_with_sniffed_options tag_iteration self_wrapped_store 0
        [''no-auto-options'' \<mapsto> PyNone]
       = Some [''no-auto-options'' \<mapsto> PyNone]"
proof -
  have h: "''no-auto-options'' \<in> dom [''no-auto-options'' \<mapsto> PyNone]"
    by simp
  from update_with_sniffed_options_no_auto_options[OF h] h sniff_self_wrapped show ?thesis
    by (intro conjI)
qed

section \<open>Properties of the metadata splitter\<close>





lemma separate_step_not_reserved:
  assumes "reserved_field fm line = None"
  shows "metadata (separate_step fm st line) = metadata st"
    and "lines (separate_step fm st line) = lines st @ [line]"
  using assms
  by (auto simp: separate_step_def reserved_field_def Let_def split: option.splits if_splits)

lemma separate_loop_no_reserved:
  "\<forall>l\<in>set ls. reserved_field fm l = None \<Longrightarrow>
   metadata (separate_loop fm st ls) = metadata st
   \<and> lines (separate_loop fm st ls) = lines st @ ls"
  by (induction ls arbitrary: st) (simp_all add: separate_step_not_reserved)

text \<open>
  C5, as the claim states it: for a docstring without reserved fields the text comes
  back unchanged. The docstring \<open>hello\<close> has no field at all; \<open>prepare_docstring\<close> adds
  an empty last line, so the text that comes back is \<open>hello\<close> followed by a newline.
\<close>

theorem separate_metadata_changes_text:
  "prepare_docstring ''hello'' = [''hello'', []]
   \<and> reserved_field field_marker_match ''hello'' = None
   \<and> reserved_field field_marker_match [] = None
   \<and> fst (separate_metadata prepare_docstring field_marker_match ''hello'') = ''hello\<newline>''
   \<and> fst (separate_metadata prepare_docstring field_marker_match ''hello'') \<noteq> ''hello''"
  by code_simp

text \<open>
  C5, amended. For a docstring that is not empty and none of whose prepared lines is a
  field with a reserved name, \<open>separate_metadata\<close> returns the prepared lines, all of
  them and unchanged, joined by newlines, and an empty mapping; the empty docstring is
  returned as it is, with an empty mapping.
\<close>

theorem separate_metadata_without_reserved_fields:
  assumes "\<forall>l\<in>set (prepare s). reserved_field fm l = None"
  shows "separate_metadata prepare fm s
           = (if s = [] then s else join_lines (prepare s), Map.empty)"
  using separate_loop_no_reserved[OF assms, of initial_state]
  by (simp add: separate_metadata_def Let_def initial_state_def)

theorem separate_metadata_without_reserved_fields_witness:
  "prepare_docstring ''Sum.\<newline>\<newline>:param x: value''
     = [''Sum.'', [], '':param x: value'', []]
   \<and> reserved_field field_marker_match ''Sum.'' = None
   \<and> reserved_field field_marker_match [] = None
   \<and> reserved_field field_marker_match '':param x: value'' = None
   \<and> separate_metadata prepare_docstring field_marker_match ''Sum.\<newline>\<newline>:param x: value''
       = (''Sum.\<newline>\<newline>:param x: value\<newline>'', Map.empty)"
proof -
  have p: "prepare_docstring ''Sum.\<newline>\<newline>:param x: value''
             = [''Sum.'', [], '':param x: value'', []]"
    by code_simp
  have r: "reserved_field field_marker_match ''Sum.'' = None"
      "reserved_field field_marker_match [] = None"
      "reserved_field field_marker_match '':param x: value'' = None"
    by code_simp+
  have h: "\<forall>l\<in>set (prepare_docstring ''Sum.\<newline>\<newline>:param x: value'').
             reserved_field field_marker_match l = None"
    unfolding p using r by simp
  have j: "join_lines [''Sum.'', [], '':param x: value'', []] = ''Sum.\<newline>\<newline>:param x: value\<newline>''"
    by simp
  from separate_metadata_without_reserved_fields[where prepare = prepare_docstring
      and fm = field_marker_match and s = "''Sum.\<newline>\<newline>:param x: value''", OF h]
  have c: "separate_metadata prepare_docstring field_marker_match ''Sum.\<newline>\<newline>:param x: value''
       = (''Sum.\<newline>\<newline>:param x: value\<newline>'', Map.empty)"
    unfolding p j by simp
  show ?thesis
    by (intro conjI p r c)
qed









section \<open>Properties of the rendering hook\<close>

text \<open>
  C8. The claim: in the \<open>py\<close> domain every field whose name is \<open>trio\<close> or starts with
  \<open>trio\<close> and a space is removed. The loop over the fields leaves by \<open>break\<close> after the
  first removal, so of the two fields \<open>trio with\<close> and \<open>trio async\<close> of one field list
  the second stays in the content.
\<close>

theorem filter_trio_fields_removes_first_only:
  "filter_trio_fields ''py'' two_trio_fields
     = [field_list [\<lparr> name_text = ''trio async'', body_text = [] \<rparr>]]"
  by (simp add: filter_trio_fields_def two_trio_fields_def startswith_def strip_def lstrip_def
      rstrip_def isspace_def whitespace_def)

end
